theory Spec2Isabelle
  imports Main "HOL-Library.Word" "HOL-Library.Sublist"
begin

unbundle bit_operations_syntax

section \<open>Shared types of the DSV4L2 core\<close>

text \<open>
  Return codes are C \<open>int\<close>s: 0 on success, a negated errno value on failure.
  The errno numbers are those of Linux (asm-generic/errno-base.h).
\<close>

definition ENOENT :: int where "ENOENT = 2"
definition ENOMEM :: int where "ENOMEM = 12"
definition EACCES :: int where "EACCES = 13"
definition EINVAL :: int where "EINVAL = 22"

text \<open>
  The TEMPEST state enumeration. Its declaration lives in dsv4l2_annotations.h; the
  integration test pins the numeric values 0, 1, 2, 3.
\<close>

datatype dsv4l2_tempest_state_t =
    DSV4L2_TEMPEST_DISABLED
  | DSV4L2_TEMPEST_LOW
  | DSV4L2_TEMPEST_HIGH
  | DSV4L2_TEMPEST_LOCKDOWN

fun tempest_value :: "dsv4l2_tempest_state_t \<Rightarrow> int" where
  "tempest_value DSV4L2_TEMPEST_DISABLED = 0"
| "tempest_value DSV4L2_TEMPEST_LOW = 1"
| "tempest_value DSV4L2_TEMPEST_HIGH = 2"
| "tempest_value DSV4L2_TEMPEST_LOCKDOWN = 3"

subsection \<open>struct dsv4l2_profile (dsv4l2_core.h)\<close>

text \<open>
  A C string is modelled by the list of its characters before the terminating NUL; a
  \<open>char buf[N]\<close> filled by \<open>strncpy(buf, s, N - 1)\<close> into zeroed storage
  therefore holds \<open>take (N - 1) s\<close>. \<open>uint32_t\<close> is \<open>32 word\<close>; \<open>int\<close> and
  \<open>int32_t\<close> are \<open>int\<close> within the 32-bit signed range.
\<close>

record tempest_control_t =
  control_id :: "32 word"
  disabled_value :: int
  low_value :: int
  high_value :: int
  lockdown_value :: int
  auto_detect :: int

record dsv4l2_profile =
  profile_id :: string
  role :: string
  device_hint :: string
  classification :: string
  pixel_format :: "32 word"
  width :: "32 word"
  height :: "32 word"
  fps_num :: "32 word"
  fps_den :: "32 word"
  controls :: "(32 word \<times> int) list"
  num_controls :: int
  tempest_control :: tempest_control_t
  meta_device_path :: string
  meta_format :: "32 word"
  buffer_count :: int
  constant_time_required :: int
  quantum_candidate :: int

subsection \<open>The V4L2 structures the core passes to the kernel\<close>

record v4l2_fract =
  numerator :: "32 word"
  denominator :: "32 word"

text \<open>struct v4l2_streamparm with its \<open>parm.capture\<close> member.\<close>

record v4l2_streamparm =
  parm_type :: "32 word"
  capability :: "32 word"
  capturemode :: "32 word"
  timeperframe :: v4l2_fract
  extendedmode :: "32 word"
  readbuffers :: "32 word"

text \<open>struct v4l2_format with the \<open>fmt.pix\<close> members the core sets.\<close>

record v4l2_format =
  fmt_type :: "32 word"
  pix_width :: "32 word"
  pix_height :: "32 word"
  pix_pixelformat :: "32 word"
  pix_field :: "32 word"

record v4l2_buffer =
  buf_index :: "32 word"
  buf_type :: "32 word"
  bytesused :: "32 word"
  buf_flags :: "32 word"
  tv_sec :: "64 word"
  tv_usec :: "64 word"
  buf_sequence :: "32 word"
  buf_memory :: "32 word"
  buf_length :: "32 word"

record v4l2_queryctrl =
  qc_id :: "32 word"
  qc_type :: "32 word"
  qc_name :: string
  qc_minimum :: int
  qc_maximum :: int
  qc_step :: int
  qc_default_value :: int
  qc_flags :: "32 word"

record v4l2_control =
  ctrl_id :: "32 word"
  ctrl_value :: int

definition V4L2_BUF_TYPE_VIDEO_CAPTURE :: "32 word" where
  "V4L2_BUF_TYPE_VIDEO_CAPTURE = 1"

definition V4L2_MEMORY_MMAP :: "32 word" where
  "V4L2_MEMORY_MMAP = 1"

definition V4L2_CTRL_FLAG_DISABLED :: "32 word" where
  "V4L2_CTRL_FLAG_DISABLED = 0x0001"

definition V4L2_CTRL_FLAG_NEXT_CTRL :: "32 word" where
  "V4L2_CTRL_FLAG_NEXT_CTRL = 0x80000000"

subsection \<open>struct dsv4l2_device_ex (dsv4l2_core.h)\<close>

record buffer_info_t =
  start :: "64 word"
  mapped_length :: "64 word"

text \<open>
  A device handle is a pointer; \<open>None\<close> stands for NULL and \<open>Some d\<close> for a
  pointer to the structure \<open>d\<close>. The field \<open>handle\<close> is the pointer's own value
  (the address), which the source casts to \<open>uint32_t\<close> to name the device in events.
  The alias pointers \<open>dev_path\<close> and \<open>role\<close> point into \<open>dev_path_buf\<close> and
  \<open>role_buf\<close>; the record keeps the buffers. \<open>buffers\<close> is the ring
  (empty for a NULL pointer).
\<close>

record dsv4l2_device_ex =
  handle :: "64 word"
  fd :: int
  layer :: "32 word"
  dev_path_buf :: string
  role_buf :: string
  profile :: "dsv4l2_profile option"
  tempest_state :: dsv4l2_tempest_state_t
  current_format :: "v4l2_format option"
  current_parm :: "v4l2_streamparm option"
  num_buffers :: int
  buffers :: "buffer_info_t list"
  meta_handle :: "64 word"
  streaming :: int

subsection \<open>Frames handed back by capture (dsv4l2_core.h)\<close>

text \<open>
  The generic and the biometric frame have the same members and differ by their
  sensitivity label. \<open>data\<close> is the slot's base pointer \<open>bufs[buf.index].start\<close>;
  it is \<open>None\<close> when the index the driver returned lies outside the ring (the C read is
  out of bounds there).
\<close>

record dsv4l2_frame_t =
  data :: "64 word option"
  len :: "64 word"
  timestamp_ns :: "64 word"
  sequence :: "32 word"

record dsv4l2_biometric_frame_t =
  bio_data :: "64 word option"
  bio_len :: "64 word"
  bio_timestamp_ns :: "64 word"
  bio_sequence :: "32 word"

section \<open>The environment: ioctl, malloc and the runtime log\<close>

text \<open>
  Every ioctl the core issues is appended, with the file descriptor and the argument
  structure as passed, to \<open>ioctl_log\<close>. The driver's answer is an arbitrary function of
  the history, the descriptor and the request: \<open>Inl e\<close> is a failed call (\<open>-1\<close>, with
  \<open>errno = e\<close>), \<open>Inr x\<close> a call that returned 0 and left \<open>x\<close> in the argument
  structure.
\<close>

datatype ioctl_arg =
    VIDIOC_DQBUF v4l2_buffer
  | VIDIOC_QBUF v4l2_buffer
  | VIDIOC_G_PARM v4l2_streamparm
  | VIDIOC_S_PARM v4l2_streamparm
  | VIDIOC_QUERYCTRL v4l2_queryctrl
  | VIDIOC_S_CTRL v4l2_control

type_synonym ioctl_history = "(int \<times> ioctl_arg) list"

record kernel =
  k_DQBUF :: "ioctl_history \<Rightarrow> int \<Rightarrow> v4l2_buffer \<Rightarrow> int + v4l2_buffer"
  k_QBUF :: "ioctl_history \<Rightarrow> int \<Rightarrow> v4l2_buffer \<Rightarrow> int + v4l2_buffer"
  k_G_PARM :: "ioctl_history \<Rightarrow> int \<Rightarrow> v4l2_streamparm \<Rightarrow> int + v4l2_streamparm"
  k_S_PARM :: "ioctl_history \<Rightarrow> int \<Rightarrow> v4l2_streamparm \<Rightarrow> int + v4l2_streamparm"
  k_QUERYCTRL :: "ioctl_history \<Rightarrow> int \<Rightarrow> v4l2_queryctrl \<Rightarrow> int + v4l2_queryctrl"
  k_S_CTRL :: "ioctl_history \<Rightarrow> int \<Rightarrow> v4l2_control \<Rightarrow> int + v4l2_control"
  malloc_ok :: "ioctl_history \<Rightarrow> bool"

text \<open>
  Modelled from the spec: the runtime's logging entry points (dsv4l2rt, declared in
  dsv4l2rt.h) are not among the sources. Per the spec's event ring they record a
  categorised event; the model records each call with the arguments the source passes.
\<close>

datatype rt_call =
    LOG_TEMPEST_TRANSITION "32 word" dsv4l2_tempest_state_t dsv4l2_tempest_state_t
  | LOG_POLICY_CHECK "32 word" string int
  | LOG_CAPTURE_START "32 word"
  | LOG_CAPTURE_END "32 word" int

record sys_state =
  ioctl_log :: ioctl_history
  rt_log :: "rt_call list"

definition dsv4l2rt_log_tempest_transition ::
  "32 word \<Rightarrow> dsv4l2_tempest_state_t \<Rightarrow> dsv4l2_tempest_state_t \<Rightarrow> sys_state \<Rightarrow> sys_state" where
  "dsv4l2rt_log_tempest_transition dev_id old_state new_state s =
     s\<lparr>rt_log := rt_log s @ [LOG_TEMPEST_TRANSITION dev_id old_state new_state]\<rparr>"

definition dsv4l2rt_log_policy_check :: "32 word \<Rightarrow> string \<Rightarrow> int \<Rightarrow> sys_state \<Rightarrow> sys_state" where
  "dsv4l2rt_log_policy_check dev_id ctx rc s =
     s\<lparr>rt_log := rt_log s @ [LOG_POLICY_CHECK dev_id ctx rc]\<rparr>"

definition dsv4l2rt_log_capture_start :: "32 word \<Rightarrow> sys_state \<Rightarrow> sys_state" where
  "dsv4l2rt_log_capture_start dev_id s = s\<lparr>rt_log := rt_log s @ [LOG_CAPTURE_START dev_id]\<rparr>"

definition dsv4l2rt_log_capture_end :: "32 word \<Rightarrow> int \<Rightarrow> sys_state \<Rightarrow> sys_state" where
  "dsv4l2rt_log_capture_end dev_id rc s = s\<lparr>rt_log := rt_log s @ [LOG_CAPTURE_END dev_id rc]\<rparr>"

text \<open>\<open>(uint32_t)(uintptr_t)dev\<close>: the handle's address cut to 32 bits.\<close>

definition dev_token :: "dsv4l2_device_ex \<Rightarrow> 32 word" where
  "dev_token dev_ex = ucast (handle dev_ex)"

definition ioctl_DQBUF ::
  "kernel \<Rightarrow> int \<Rightarrow> v4l2_buffer \<Rightarrow> sys_state \<Rightarrow> (int + v4l2_buffer) \<times> sys_state" where
  "ioctl_DQBUF K f arg s =
     (k_DQBUF K (ioctl_log s) f arg, s\<lparr>ioctl_log := ioctl_log s @ [(f, VIDIOC_DQBUF arg)]\<rparr>)"

definition ioctl_QBUF ::
  "kernel \<Rightarrow> int \<Rightarrow> v4l2_buffer \<Rightarrow> sys_state \<Rightarrow> (int + v4l2_buffer) \<times> sys_state" where
  "ioctl_QBUF K f arg s =
     (k_QBUF K (ioctl_log s) f arg, s\<lparr>ioctl_log := ioctl_log s @ [(f, VIDIOC_QBUF arg)]\<rparr>)"

definition ioctl_G_PARM ::
  "kernel \<Rightarrow> int \<Rightarrow> v4l2_streamparm \<Rightarrow> sys_state \<Rightarrow> (int + v4l2_streamparm) \<times> sys_state" where
  "ioctl_G_PARM K f arg s =
     (k_G_PARM K (ioctl_log s) f arg, s\<lparr>ioctl_log := ioctl_log s @ [(f, VIDIOC_G_PARM arg)]\<rparr>)"

definition ioctl_S_PARM ::
  "kernel \<Rightarrow> int \<Rightarrow> v4l2_streamparm \<Rightarrow> sys_state \<Rightarrow> (int + v4l2_streamparm) \<times> sys_state" where
  "ioctl_S_PARM K f arg s =
     (k_S_PARM K (ioctl_log s) f arg, s\<lparr>ioctl_log := ioctl_log s @ [(f, VIDIOC_S_PARM arg)]\<rparr>)"

definition ioctl_QUERYCTRL ::
  "kernel \<Rightarrow> int \<Rightarrow> v4l2_queryctrl \<Rightarrow> sys_state \<Rightarrow> (int + v4l2_queryctrl) \<times> sys_state" where
  "ioctl_QUERYCTRL K f arg s =
     (k_QUERYCTRL K (ioctl_log s) f arg, s\<lparr>ioctl_log := ioctl_log s @ [(f, VIDIOC_QUERYCTRL arg)]\<rparr>)"

definition ioctl_S_CTRL ::
  "kernel \<Rightarrow> int \<Rightarrow> v4l2_control \<Rightarrow> sys_state \<Rightarrow> (int + v4l2_control) \<times> sys_state" where
  "ioctl_S_CTRL K f arg s =
     (k_S_CTRL K (ioctl_log s) f arg, s\<lparr>ioctl_log := ioctl_log s @ [(f, VIDIOC_S_CTRL arg)]\<rparr>)"

section \<open>TEMPEST engine (dsv4l2_tempest.c)\<close>

text \<open>dsv4l2_get_tempest_state: a read of the cached field; NULL reads as DISABLED.\<close>

fun dsv4l2_get_tempest_state :: "dsv4l2_device_ex option \<Rightarrow> dsv4l2_tempest_state_t" where
  "dsv4l2_get_tempest_state None = DSV4L2_TEMPEST_DISABLED"
| "dsv4l2_get_tempest_state (Some dev_ex) = tempest_state dev_ex"

text \<open>
  dsv4l2_set_tempest_state: the source carries a TODO where the control write would
  stand; it updates the cache and logs the transition.
\<close>

definition dsv4l2_set_tempest_state ::
  "dsv4l2_device_ex option \<Rightarrow> dsv4l2_tempest_state_t \<Rightarrow> sys_state
     \<Rightarrow> int \<times> dsv4l2_device_ex option \<times> sys_state" where
  "dsv4l2_set_tempest_state dev target_state s =
     (case dev of
        None \<Rightarrow> (- EINVAL, dev, s)
      | Some dev_ex \<Rightarrow>
          let old_state = tempest_state dev_ex;
              dev_ex' = dev_ex\<lparr>tempest_state := target_state\<rparr>
          in (0, Some dev_ex',
              dsv4l2rt_log_tempest_transition (dev_token dev_ex) old_state target_state s))"

text \<open>
  dsv4l2_get_tempest_state as a call on the device and the system, in the shape of
  dsv4l2_set_tempest_state: next to the state it returns, the result carries the device
  behind the handle and the system state as the call leaves them. The function takes a
  pointer to a structure it could write; its body tests the pointer, reads
  \<open>dev_ex->tempest_state\<close>, assigns nothing, issues no ioctl and logs nothing.
\<close>

definition dsv4l2_get_tempest_state_call ::
  "dsv4l2_device_ex option \<Rightarrow> sys_state
     \<Rightarrow> dsv4l2_tempest_state_t \<times> dsv4l2_device_ex option \<times> sys_state" where
  "dsv4l2_get_tempest_state_call dev s =
     (case dev of
        None \<Rightarrow> (DSV4L2_TEMPEST_DISABLED, dev, s)
      | Some dev_ex \<Rightarrow> (tempest_state dev_ex, Some dev_ex, s))"

text \<open>dsv4l2_policy_check_capture: "Simple policy: deny capture in LOCKDOWN mode".\<close>

definition dsv4l2_policy_check_capture ::
  "dsv4l2_device_ex option \<Rightarrow> dsv4l2_tempest_state_t \<Rightarrow> string \<Rightarrow> sys_state
     \<Rightarrow> int \<times> sys_state" where
  "dsv4l2_policy_check_capture dev current_state ctx s =
     (case dev of
        None \<Rightarrow> (- EINVAL, s)
      | Some dev_ex \<Rightarrow>
          let result = (if current_state = DSV4L2_TEMPEST_LOCKDOWN then - EACCES else 0)
          in (result, dsv4l2rt_log_policy_check (dev_token dev_ex) ctx result s))"

section \<open>Device core (dsv4l2_core.c)\<close>

text \<open>The local \<open>struct v4l2_buffer buf\<close> after memset and the two assignments.\<close>

definition capture_buf :: v4l2_buffer where
  "capture_buf =
     \<lparr>buf_index = 0, buf_type = V4L2_BUF_TYPE_VIDEO_CAPTURE, bytesused = 0, buf_flags = 0,
      tv_sec = 0, tv_usec = 0, buf_sequence = 0, buf_memory = V4L2_MEMORY_MMAP,
      buf_length = 0\<rparr>"

definition slot_start :: "buffer_info_t list \<Rightarrow> 32 word \<Rightarrow> 64 word option" where
  "slot_start bufs i = (if unat i < length bufs then Some (start (bufs ! unat i)) else None)"

definition dsv4l2_capture_frame ::
  "kernel \<Rightarrow> dsv4l2_device_ex option \<Rightarrow> dsv4l2_frame_t option \<Rightarrow> sys_state
     \<Rightarrow> int \<times> dsv4l2_device_ex option \<times> dsv4l2_frame_t option \<times> sys_state" where
  "dsv4l2_capture_frame K dev out_frame s =
     (case (dev, out_frame) of
        (Some dev_ex, Some frame0) \<Rightarrow>
          let state = dsv4l2_get_tempest_state dev;
              (policy_rc, s1) = dsv4l2_policy_check_capture dev state ''dsv4l2_capture_frame'' s
          in if policy_rc \<noteq> 0 then (- EACCES, dev, out_frame, s1)
             else if streaming dev_ex = 0 then (- EINVAL, dev, out_frame, s1)
             else (case ioctl_DQBUF K (fd dev_ex) capture_buf s1 of
                     (Inl errno, s2) \<Rightarrow> (- errno, dev, out_frame, s2)
                   | (Inr buf, s2) \<Rightarrow>
                       let frame = \<lparr>data = slot_start (buffers dev_ex) (buf_index buf),
                                    len = ucast (bytesused buf),
                                    timestamp_ns = tv_sec buf * 1000000000 + tv_usec buf * 1000,
                                    sequence = buf_sequence buf\<rparr>
                       in (case ioctl_QBUF K (fd dev_ex) buf s2 of
                             (Inl errno, s3) \<Rightarrow> (- errno, dev, Some frame, s3)
                           | (Inr _, s3) \<Rightarrow>
                               (0, dev, Some frame,
                                dsv4l2rt_log_capture_end (dev_token dev_ex) 0
                                  (dsv4l2rt_log_capture_start (dev_token dev_ex) s3))))
      | _ \<Rightarrow> (- EINVAL, dev, out_frame, s))"

definition dsv4l2_capture_iris ::
  "kernel \<Rightarrow> dsv4l2_device_ex option \<Rightarrow> dsv4l2_biometric_frame_t option \<Rightarrow> sys_state
     \<Rightarrow> int \<times> dsv4l2_device_ex option \<times> dsv4l2_biometric_frame_t option \<times> sys_state" where
  "dsv4l2_capture_iris K dev out_frame s =
     (case (dev, out_frame) of
        (Some dev_ex, Some frame0) \<Rightarrow>
          let state = dsv4l2_get_tempest_state dev;
              (policy_rc, s1) = dsv4l2_policy_check_capture dev state ''dsv4l2_capture_iris'' s
          in if policy_rc \<noteq> 0 then (- EACCES, dev, out_frame, s1)
             else if streaming dev_ex = 0 then (- EINVAL, dev, out_frame, s1)
             else (case ioctl_DQBUF K (fd dev_ex) capture_buf s1 of
                     (Inl errno, s2) \<Rightarrow> (- errno, dev, out_frame, s2)
                   | (Inr buf, s2) \<Rightarrow>
                       let frame = \<lparr>bio_data = slot_start (buffers dev_ex) (buf_index buf),
                                    bio_len = ucast (bytesused buf),
                                    bio_timestamp_ns = tv_sec buf * 1000000000 + tv_usec buf * 1000,
                                    bio_sequence = buf_sequence buf\<rparr>
                       in (case ioctl_QBUF K (fd dev_ex) buf s2 of
                             (Inl errno, s3) \<Rightarrow> (- errno, dev, Some frame, s3)
                           | (Inr _, s3) \<Rightarrow>
                               (0, dev, Some frame,
                                dsv4l2rt_log_capture_end (dev_token dev_ex) 0
                                  (dsv4l2rt_log_capture_start (dev_token dev_ex) s3))))
      | _ \<Rightarrow> (- EINVAL, dev, out_frame, s))"

text \<open>The local \<open>struct v4l2_streamparm parm\<close> after memset and the type assignment.\<close>

definition framerate_parm :: v4l2_streamparm where
  "framerate_parm =
     \<lparr>parm_type = V4L2_BUF_TYPE_VIDEO_CAPTURE, capability = 0, capturemode = 0,
      timeperframe = \<lparr>numerator = 0, denominator = 0\<rparr>, extendedmode = 0, readbuffers = 0\<rparr>"

text \<open>
  dsv4l2_set_framerate. The parameters \<open>fps_num\<close> and \<open>fps_den\<close> of the source are
  \<open>fps_num_arg\<close> and \<open>fps_den_arg\<close> here (the profile record owns the plain names).
\<close>

definition dsv4l2_set_framerate ::
  "kernel \<Rightarrow> dsv4l2_device_ex option \<Rightarrow> 32 word \<Rightarrow> 32 word \<Rightarrow> sys_state
     \<Rightarrow> int \<times> dsv4l2_device_ex option \<times> sys_state" where
  "dsv4l2_set_framerate K dev fps_num_arg fps_den_arg s =
     (case dev of
        None \<Rightarrow> (- EINVAL, dev, s)
      | Some dev_ex \<Rightarrow>
          (case ioctl_G_PARM K (fd dev_ex) framerate_parm s of
             (Inl errno, s1) \<Rightarrow> (- errno, dev, s1)
           | (Inr parm, s1) \<Rightarrow>
               let parm' = parm\<lparr>timeperframe :=
                             (timeperframe parm)\<lparr>numerator := fps_den_arg, denominator := fps_num_arg\<rparr>\<rparr>
               in (case ioctl_S_PARM K (fd dev_ex) parm' s1 of
                     (Inl errno, s2) \<Rightarrow> (- errno, dev, s2)
                   | (Inr parm'', s2) \<Rightarrow>
                       let cached =
                             (case current_parm dev_ex of
                                Some old \<Rightarrow> Some parm''
                              | None \<Rightarrow> if malloc_ok K (ioctl_log s2) then Some parm'' else None)
                       in (0, Some (dev_ex\<lparr>current_parm := cached\<rparr>), s2))))"

definition dsv4l2_set_control ::
  "kernel \<Rightarrow> dsv4l2_device_ex option \<Rightarrow> 32 word \<Rightarrow> int \<Rightarrow> sys_state \<Rightarrow> int \<times> sys_state" where
  "dsv4l2_set_control K dev cid v s =
     (case dev of
        None \<Rightarrow> (- EINVAL, s)
      | Some dev_ex \<Rightarrow>
          (case ioctl_S_CTRL K (fd dev_ex) \<lparr>ctrl_id = cid, ctrl_value = v\<rparr> s of
             (Inl errno, s1) \<Rightarrow> (- errno, s1)
           | (Inr ctrl, s1) \<Rightarrow> (0, s1)))"

subsection \<open>Control enumeration (dsv4l2_enum_controls)\<close>

text \<open>
  The loop of dsv4l2_enum_controls: it runs while QUERYCTRL succeeds, hands every control
  not flagged disabled to the callback, stops when the callback returns non-zero, and
  otherwise asks for the control after the one just returned. A driver may answer
  forever, so the loop is a partial function: \<open>None\<close> is a loop that never ends.
\<close>

definition enum_start :: v4l2_queryctrl where
  "enum_start =
     \<lparr>qc_id = V4L2_CTRL_FLAG_NEXT_CTRL, qc_type = 0, qc_name = [], qc_minimum = 0,
      qc_maximum = 0, qc_step = 0, qc_default_value = 0, qc_flags = 0\<rparr>"

partial_function (option) enum_controls_loop ::
  "kernel \<Rightarrow> int \<Rightarrow> (v4l2_queryctrl \<Rightarrow> 'u \<Rightarrow> int \<times> 'u) \<Rightarrow> v4l2_queryctrl \<Rightarrow> 'u \<Rightarrow> sys_state
     \<Rightarrow> ('u \<times> sys_state) option" where
  "enum_controls_loop K f callback qctrl user_data s =
     (case ioctl_QUERYCTRL K f qctrl s of
        (Inl errno, s1) \<Rightarrow> Some (user_data, s1)
      | (Inr q, s1) \<Rightarrow>
          if qc_flags q AND V4L2_CTRL_FLAG_DISABLED = 0
          then (case callback q user_data of
                  (r, ud) \<Rightarrow>
                    if r \<noteq> 0 then Some (ud, s1)
                    else enum_controls_loop K f callback
                           (q\<lparr>qc_id := qc_id q OR V4L2_CTRL_FLAG_NEXT_CTRL\<rparr>) ud s1)
          else enum_controls_loop K f callback
                 (q\<lparr>qc_id := qc_id q OR V4L2_CTRL_FLAG_NEXT_CTRL\<rparr>) user_data s1)"

definition dsv4l2_enum_controls ::
  "kernel \<Rightarrow> dsv4l2_device_ex option \<Rightarrow> (v4l2_queryctrl \<Rightarrow> 'u \<Rightarrow> int \<times> 'u) option \<Rightarrow> 'u
     \<Rightarrow> sys_state \<Rightarrow> (int \<times> 'u \<times> sys_state) option" where
  "dsv4l2_enum_controls K dev callback user_data s =
     (case (dev, callback) of
        (Some dev_ex, Some cb) \<Rightarrow>
          (case enum_controls_loop K (fd dev_ex) cb enum_start user_data s of
             None \<Rightarrow> None
           | Some (ud, s1) \<Rightarrow> Some (0, ud, s1))
      | _ \<Rightarrow> Some (- EINVAL, user_data, s))"

subsection \<open>TEMPEST control discovery (dsv4l2_tempest.c)\<close>

text \<open>\<open>tolower\<close> in the C locale: the 26 upper-case letters, nothing else.\<close>

definition tolower_c :: "char \<Rightarrow> char" where
  "tolower_c c =
     (case map_of (zip ''ABCDEFGHIJKLMNOPQRSTUVWXYZ'' ''abcdefghijklmnopqrstuvwxyz'') c of
        Some l \<Rightarrow> l
      | None \<Rightarrow> c)"

definition tempest_patterns :: "string list" where
  "tempest_patterns = [''tempest'', ''privacy'', ''secure'', ''shutter'',
                       ''led'', ''indicator'', ''emission'', ''lockdown'']"

text \<open>\<open>strstr(haystack, needle) != NULL\<close>.\<close>

fun strstr_found :: "string \<Rightarrow> string \<Rightarrow> bool" where
  "strstr_found [] needle = (needle = [])"
| "strstr_found (c # cs) needle = (prefix needle (c # cs) \<or> strstr_found cs needle)"

fun first_pattern :: "string \<Rightarrow> string list \<Rightarrow> int" where
  "first_pattern lower_name [] = 0"
| "first_pattern lower_name (p # ps) =
     (if strstr_found lower_name p then 1 else first_pattern lower_name ps)"

text \<open>is_tempest_control: the name is copied into \<open>char lower_name[256]\<close> first.\<close>

definition is_tempest_control :: "string \<Rightarrow> int" where
  "is_tempest_control name =
     (let lower_name = map tolower_c (take 255 name)
      in first_pattern lower_name tempest_patterns)"

record tempest_search_ctx_t =
  found_id :: "32 word"
  found :: int

definition tempest_search_callback ::
  "v4l2_queryctrl \<Rightarrow> tempest_search_ctx_t \<Rightarrow> int \<times> tempest_search_ctx_t" where
  "tempest_search_callback qctrl ctx =
     (if is_tempest_control (qc_name qctrl) \<noteq> 0
      then (1, ctx\<lparr>found_id := qc_id qctrl, found := 1\<rparr>)
      else (0, ctx))"

text \<open>
  dsv4l2_discover_tempest_control: \<open>out_control_id\<close> is \<open>None\<close> for a NULL pointer and
  \<open>Some v\<close> for a pointer to a word holding \<open>v\<close>; the result carries the word after
  the call.
\<close>

definition dsv4l2_discover_tempest_control ::
  "kernel \<Rightarrow> dsv4l2_device_ex option \<Rightarrow> 32 word option \<Rightarrow> sys_state
     \<Rightarrow> (int \<times> 32 word option \<times> sys_state) option" where
  "dsv4l2_discover_tempest_control K dev out_control_id s =
     (case (dev, out_control_id) of
        (Some dev_ex, Some out0) \<Rightarrow>
          (case dsv4l2_enum_controls K dev (Some tempest_search_callback)
                  \<lparr>found_id = 0, found = 0\<rparr> s of
             None \<Rightarrow> None
           | Some (rc, ctx, s1) \<Rightarrow>
               if found ctx \<noteq> 0 then Some (0, Some (found_id ctx), s1)
               else Some (- ENOENT, out_control_id, s1))
      | _ \<Rightarrow> Some (- EINVAL, out_control_id, s))"

text \<open>
  The kernel's side of VIDIOC_QUERYCTRL, as the V4L2 API documents it, for a driver whose
  controls are \<open>ctrls\<close> in ascending id order: with V4L2_CTRL_FLAG_NEXT_CTRL set in the
  requested id the answer is the first control with a higher id, without it the control
  with that id; EINVAL when there is none.
\<close>

definition V4L2_CTRL_ID_MASK :: "32 word" where
  "V4L2_CTRL_ID_MASK = 0x0FFFFFFF"

definition queryctrl_of :: "v4l2_queryctrl list \<Rightarrow> v4l2_queryctrl \<Rightarrow> int + v4l2_queryctrl" where
  "queryctrl_of ctrls q =
     (let wanted = qc_id q AND V4L2_CTRL_ID_MASK
      in case (if qc_id q AND V4L2_CTRL_FLAG_NEXT_CTRL \<noteq> 0
               then find (\<lambda>c. wanted < qc_id c) ctrls
               else find (\<lambda>c. qc_id c = wanted) ctrls) of
           None \<Rightarrow> Inl EINVAL
         | Some c \<Rightarrow> Inr c)"

text \<open>What the claim promises: the first enabled control whose lowercased name contains a pattern.\<close>

definition tempest_like :: "v4l2_queryctrl \<Rightarrow> bool" where
  "tempest_like c \<longleftrightarrow>
     qc_flags c AND V4L2_CTRL_FLAG_DISABLED = 0
     \<and> (\<exists>p \<in> set tempest_patterns. sublist p (map tolower_c (qc_name c)))"

section \<open>Profile loader (dsv4l2_profiles.c)\<close>

subsection \<open>The C library calls the loader makes\<close>

text \<open>
  \<open>atoi\<close> and \<open>strtoul(s, NULL, 0)\<close> as glibc computes them on a 64-bit Linux:
  leading white space, an optional sign, the longest run of digits of the base;
  \<open>strtol\<close> and \<open>strtoul\<close> saturate at the limits of \<open>long\<close>, and \<open>atoi\<close> cuts the
  \<open>long\<close> to an \<open>int\<close>.
\<close>

definition isspace_c :: "char \<Rightarrow> bool" where
  "isspace_c c \<longleftrightarrow> c \<in> set [CHR '' '', CHR 0x09, CHR 0x0A, CHR 0x0B, CHR 0x0C, CHR 0x0D]"

definition digit_of :: "char \<Rightarrow> nat option" where
  "digit_of c =
     map_of (zip ''0123456789abcdefghijklmnopqrstuvwxyz'' [0 ..< 36]) (tolower_c c)"

fun parse_digits :: "nat \<Rightarrow> string \<Rightarrow> nat \<Rightarrow> nat" where
  "parse_digits b [] acc = acc"
| "parse_digits b (c # cs) acc =
     (case digit_of c of
        None \<Rightarrow> acc
      | Some d \<Rightarrow> if d < b then parse_digits b cs (acc * b + d) else acc)"

fun split_sign :: "string \<Rightarrow> bool \<times> string" where
  "split_sign [] = (False, [])"
| "split_sign (c # cs) =
     (if c = CHR ''-'' then (True, cs) else if c = CHR ''+'' then (False, cs) else (False, c # cs))"

definition strtol10 :: "string \<Rightarrow> int" where
  "strtol10 s =
     (let (neg, digits) = split_sign (dropWhile isspace_c s);
          n = int (parse_digits 10 digits 0)
      in if neg then (if 2 ^ 63 < n then - (2 ^ 63) else - n)
         else (if 2 ^ 63 - 1 < n then 2 ^ 63 - 1 else n))"

definition atoi :: "string \<Rightarrow> int" where
  "atoi s = sint (word_of_int (strtol10 s) :: 32 word)"

fun strtoul_digits :: "string \<Rightarrow> nat" where
  "strtoul_digits (c0 # c1 # cs) =
     (if c0 = CHR ''0'' \<and> (c1 = CHR ''x'' \<or> c1 = CHR ''X'') then parse_digits 16 cs 0
      else if c0 = CHR ''0'' then parse_digits 8 (c0 # c1 # cs) 0
      else parse_digits 10 (c0 # c1 # cs) 0)"
| "strtoul_digits cs = parse_digits 10 cs 0"

definition strtoul0 :: "string \<Rightarrow> nat" where
  "strtoul0 s =
     (let (neg, digits) = split_sign (dropWhile isspace_c s);
          n = strtoul_digits digits
      in if 2 ^ 64 - 1 < n then 2 ^ 64 - 1
         else if neg then (2 ^ 64 - n) mod 2 ^ 64
         else n)"

text \<open>
  fourcc_to_u32. \<open>(uint32_t)fourcc[i]\<close> converts a \<open>char\<close>, which is signed on
  x86-64 Linux: a byte above 0x7F is sign-extended.
\<close>

definition char_to_u32 :: "char \<Rightarrow> 32 word" where
  "char_to_u32 c = scast (of_char c :: 8 word)"

definition fourcc_to_u32 :: "string \<Rightarrow> 32 word" where
  "fourcc_to_u32 fourcc =
     (case fourcc of
        [c0, c1, c2, c3] \<Rightarrow>
          char_to_u32 c0 OR push_bit 8 (char_to_u32 c1) OR push_bit 16 (char_to_u32 c2)
            OR push_bit 24 (char_to_u32 c3)
      | _ \<Rightarrow> 0)"

subsection \<open>The event stream of libyaml\<close>

text \<open>
  A profile file is read through \<open>yaml_parser_parse\<close>; the model takes the sequence of
  its results. \<open>None\<close> is a call that failed, \<open>Some e\<close> a call that produced the event
  \<open>e\<close>. libyaml ends every sequence with a STREAM-END event or a failure; a sequence
  that merely stops is read as a failure. A scalar event carries its value as the C
  string the loader reads through \<open>event.data.scalar.value\<close>.
\<close>

datatype yaml_event_t =
    YAML_NO_EVENT
  | YAML_STREAM_START_EVENT
  | YAML_STREAM_END_EVENT
  | YAML_DOCUMENT_START_EVENT
  | YAML_DOCUMENT_END_EVENT
  | YAML_ALIAS_EVENT
  | YAML_SCALAR_EVENT string
  | YAML_SEQUENCE_START_EVENT
  | YAML_SEQUENCE_END_EVENT
  | YAML_MAPPING_START_EVENT
  | YAML_MAPPING_END_EVENT

text \<open>The locals of the parse loop; \<open>context_buf\<close> is the local \<open>char context[64]\<close>.\<close>

record loader_state =
  prof :: dsv4l2_profile
  current_key :: string
  context_buf :: string
  in_controls :: int
  in_tempest :: int
  in_mode_map :: int

definition is_true :: "string \<Rightarrow> int" where
  "is_true v = (if v = ''true'' then 1 else 0)"

text \<open>The first if-chain of the scalar case: the top-level keys.\<close>

definition set_field :: "string \<Rightarrow> string \<Rightarrow> dsv4l2_profile \<Rightarrow> dsv4l2_profile" where
  "set_field key v p =
     (if key = ''id'' then p\<lparr>profile_id := take 63 v\<rparr>
      else if key = ''role'' then p\<lparr>role := take 31 v\<rparr>
      else if key = ''device_hint'' then p\<lparr>device_hint := take 255 v\<rparr>
      else if key = ''classification'' then p\<lparr>classification := take 63 v\<rparr>
      else if key = ''pixel_format'' then p\<lparr>pixel_format := fourcc_to_u32 v\<rparr>
      else if key = ''fps'' then p\<lparr>fps_num := word_of_int (atoi v), fps_den := 1\<rparr>
      else if key = ''meta_device'' then p\<lparr>meta_device_path := take 255 v\<rparr>
      else if key = ''buffer_count'' then p\<lparr>buffer_count := atoi v\<rparr>
      else if key = ''constant_time_required'' then p\<lparr>constant_time_required := is_true v\<rparr>
      else if key = ''quantum_candidate'' then p\<lparr>quantum_candidate := is_true v\<rparr>
      else p)"

text \<open>The block under \<open>if (in_tempest)\<close>: the TEMPEST control mapping.\<close>

definition set_tempest_field ::
  "int \<Rightarrow> string \<Rightarrow> string \<Rightarrow> tempest_control_t \<Rightarrow> tempest_control_t" where
  "set_tempest_field mode_map key v m =
     (if key = ''id'' then m\<lparr>control_id := word_of_nat (strtoul0 v)\<rparr>
      else if key = ''auto_detect'' then m\<lparr>auto_detect := is_true v\<rparr>
      else if mode_map \<noteq> 0 then
        (if key = ''DISABLED'' then m\<lparr>disabled_value := atoi v\<rparr>
         else if key = ''LOW'' then m\<lparr>low_value := atoi v\<rparr>
         else if key = ''HIGH'' then m\<lparr>high_value := atoi v\<rparr>
         else if key = ''LOCKDOWN'' then m\<lparr>lockdown_value := atoi v\<rparr>
         else m)
      else m)"

text \<open>
  One pass through the \<open>switch (event.type)\<close>. A scalar is a key when \<open>current_key\<close> is
  empty and a value otherwise; the block for control values has an empty body.
\<close>

fun handle_event :: "yaml_event_t \<Rightarrow> loader_state \<Rightarrow> loader_state" where
  "handle_event (YAML_SCALAR_EVENT v) st =
     (if current_key st = [] then st\<lparr>current_key := take 63 v\<rparr>
      else
        let p1 = set_field (current_key st) v (prof st);
            p2 = (if in_tempest st \<noteq> 0
                  then p1\<lparr>tempest_control :=
                            set_tempest_field (in_mode_map st) (current_key st) v
                              (tempest_control p1)\<rparr>
                  else p1)
        in st\<lparr>prof := p2, current_key := []\<rparr>)"
| "handle_event YAML_SEQUENCE_START_EVENT st =
     (if current_key st = ''resolution'' then st\<lparr>context_buf := ''resolution''\<rparr> else st)"
| "handle_event YAML_MAPPING_START_EVENT st =
     (if current_key st = ''controls'' then st\<lparr>in_controls := 1, current_key := []\<rparr>
      else if current_key st = ''tempest_control'' then st\<lparr>in_tempest := 1, current_key := []\<rparr>
      else if current_key st = ''mode_map'' then st\<lparr>in_mode_map := 1, current_key := []\<rparr>
      else st\<lparr>current_key := []\<rparr>)"
| "handle_event YAML_MAPPING_END_EVENT st =
     (if in_mode_map st \<noteq> 0 then st\<lparr>in_mode_map := 0\<rparr>
      else if in_tempest st \<noteq> 0 then st\<lparr>in_tempest := 0\<rparr>
      else if in_controls st \<noteq> 0 then st\<lparr>in_controls := 0\<rparr>
      else st)"
| "handle_event ev st = st"

text \<open>The loop \<open>while (!done)\<close>: \<open>None\<close> is the exit through a failed parse.\<close>

fun parse_events :: "yaml_event_t option list \<Rightarrow> loader_state \<Rightarrow> loader_state option" where
  "parse_events [] st = None"
| "parse_events (None # rest) st = None"
| "parse_events (Some ev # rest) st =
     (if ev = YAML_STREAM_END_EVENT then Some st else parse_events rest (handle_event ev st))"

text \<open>The profile after \<open>calloc\<close> and the three default assignments.\<close>

definition calloc_profile :: dsv4l2_profile where
  "calloc_profile =
     \<lparr>profile_id = [], role = [], device_hint = [], classification = [], pixel_format = 0,
      width = 0, height = 0, fps_num = 0, fps_den = 0,
      controls = replicate 32 (0, 0), num_controls = 0,
      tempest_control = \<lparr>control_id = 0, disabled_value = 0, low_value = 0, high_value = 0,
                          lockdown_value = 0, auto_detect = 0\<rparr>,
      meta_device_path = [], meta_format = 0, buffer_count = 0,
      constant_time_required = 0, quantum_candidate = 0\<rparr>"

definition initial_profile :: dsv4l2_profile where
  "initial_profile =
     calloc_profile\<lparr>buffer_count := 4, constant_time_required := 0, quantum_candidate := 0\<rparr>"

definition initial_loader_state :: loader_state where
  "initial_loader_state =
     \<lparr>prof = initial_profile, current_key = [], context_buf = [],
      in_controls = 0, in_tempest = 0, in_mode_map = 0\<rparr>"

text \<open>
  What the loader asks of its surroundings: \<open>fopen_result path\<close> is the errno of a
  failed \<open>fopen\<close> or the results \<open>yaml_parser_parse\<close> will give on that file;
  \<open>calloc_ok\<close> and \<open>yaml_init_ok\<close> tell whether the allocation and
  \<open>yaml_parser_initialize\<close> succeed.
\<close>

record loader_env =
  fopen_result :: "string \<Rightarrow> int + yaml_event_t option list"
  calloc_ok :: bool
  yaml_init_ok :: bool

text \<open>
  dsv4l2_profile_load_from_file. \<open>out_profile\<close> is \<open>None\<close> for a NULL pointer and
  \<open>Some q\<close> for a pointer to a profile pointer holding \<open>q\<close>; the result carries that
  pointer after the call.
\<close>

definition dsv4l2_profile_load_from_file ::
  "loader_env \<Rightarrow> string option \<Rightarrow> dsv4l2_profile option option
     \<Rightarrow> int \<times> dsv4l2_profile option option" where
  "dsv4l2_profile_load_from_file env filepath out_profile =
     (case (filepath, out_profile) of
        (Some path, Some old) \<Rightarrow>
          (case fopen_result env path of
             Inl errno \<Rightarrow> (- errno, out_profile)
           | Inr results \<Rightarrow>
               if \<not> calloc_ok env then (- ENOMEM, out_profile)
               else if \<not> yaml_init_ok env then (- ENOMEM, out_profile)
               else (case parse_events results initial_loader_state of
                       None \<Rightarrow> (- EINVAL, out_profile)
                     | Some st \<Rightarrow> (0, Some (Some (prof st)))))
      | _ \<Rightarrow> (- EINVAL, out_profile))"

section \<open>Layer policy and TEMPEST mapping, as the spec words them\<close>

text \<open>
  Modelled from the spec: the layer-policy table (dsv4l2_policy, not among the sources;
  the integration test reads \<open>max_width\<close> and \<open>max_height\<close> of layer 3 through
  dsv4l2_get_layer_policy). A table maps a layer to its caps, and a device exceeds its
  layer's cap when the negotiated format is wider or taller than the cap.
\<close>

record dsv4l2_layer_policy_t =
  max_width :: "32 word"
  max_height :: "32 word"

definition exceeds_layer_cap ::
  "(32 word \<Rightarrow> dsv4l2_layer_policy_t option) \<Rightarrow> dsv4l2_device_ex \<Rightarrow> bool" where
  "exceeds_layer_cap table dev_ex =
     (case table (layer dev_ex) of
        None \<Rightarrow> False
      | Some pol \<Rightarrow>
          (case current_format dev_ex of
             None \<Rightarrow> False
           | Some fmt \<Rightarrow> max_width pol < pix_width fmt \<or> max_height pol < pix_height fmt))"

text \<open>
  A device has a TEMPEST mapping when its bound profile names a control
  (dsv4l2_profile_apply tests \<open>tempest_control.control_id != 0\<close>); the value mapped to a
  state is the profile's entry for it.
\<close>

definition tempest_mapping_installed :: "dsv4l2_device_ex \<Rightarrow> bool" where
  "tempest_mapping_installed dev_ex =
     (case profile dev_ex of
        None \<Rightarrow> False
      | Some p \<Rightarrow> control_id (tempest_control p) \<noteq> 0)"

fun mapped_value :: "tempest_control_t \<Rightarrow> dsv4l2_tempest_state_t \<Rightarrow> int" where
  "mapped_value m DSV4L2_TEMPEST_DISABLED = disabled_value m"
| "mapped_value m DSV4L2_TEMPEST_LOW = low_value m"
| "mapped_value m DSV4L2_TEMPEST_HIGH = high_value m"
| "mapped_value m DSV4L2_TEMPEST_LOCKDOWN = lockdown_value m"

section \<open>Concrete devices and drivers\<close>

definition iris_profile :: dsv4l2_profile where
  "iris_profile =
     \<lparr>profile_id = ''046d:0825'', role = ''iris_scanner'', device_hint = ''/dev/video0'',
      classification = ''SECRET_BIOMETRIC'', pixel_format = 0x56595559,
      width = 0, height = 0, fps_num = 30, fps_den = 1,
      controls = replicate 32 (0, 0), num_controls = 0,
      tempest_control = \<lparr>control_id = 0x009A0910, disabled_value = 0, low_value = 1,
                          high_value = 2, lockdown_value = 3, auto_detect = 0\<rparr>,
      meta_device_path = [], meta_format = 0, buffer_count = 4,
      constant_time_required = 1, quantum_candidate = 0\<rparr>"

text \<open>An open layer-3 device, not streaming, with 1920x1080 negotiated.\<close>

definition iris_device :: dsv4l2_device_ex where
  "iris_device =
     \<lparr>handle = 0x5581A2C3D4E0, fd = 3, layer = 3, dev_path_buf = ''/dev/video0'',
      role_buf = ''iris_scanner'', profile = Some iris_profile,
      tempest_state = DSV4L2_TEMPEST_DISABLED,
      current_format = Some \<lparr>fmt_type = 1, pix_width = 1920, pix_height = 1080,
                              pix_pixelformat = 0x56595559, pix_field = 1\<rparr>,
      current_parm = None, num_buffers = 0, buffers = [], meta_handle = 0, streaming = 0\<rparr>"

definition layer3_table :: "32 word \<Rightarrow> dsv4l2_layer_policy_t option" where
  "layer3_table l = (if l = 3 then Some \<lparr>max_width = 1280, max_height = 720\<rparr> else None)"

text \<open>
  A driver that answers G_PARM with 1/25 s, accepts S_PARM, S_CTRL and QBUF as given,
  has no frame ready (DQBUF fails with EAGAIN = 11) and no controls.
\<close>

definition plain_kernel :: kernel where
  "plain_kernel =
     \<lparr>k_DQBUF = (\<lambda>h f x. Inl 11), k_QBUF = (\<lambda>h f x. Inr x),
      k_G_PARM = (\<lambda>h f x. Inr (x\<lparr>capability := 0x1000,
                                     timeperframe := \<lparr>numerator = 1, denominator = 25\<rparr>\<rparr>)),
      k_S_PARM = (\<lambda>h f x. Inr x),
      k_QUERYCTRL = (\<lambda>h f x. Inl 22), k_S_CTRL = (\<lambda>h f x. Inr x),
      malloc_ok = (\<lambda>h. True)\<rparr>"

text \<open>A driver's control list: one plain control, a disabled privacy control, two TEMPEST-like ones.\<close>

definition webcam_controls :: "v4l2_queryctrl list" where
  "webcam_controls =
     [\<lparr>qc_id = 0x00980900, qc_type = 1, qc_name = ''Brightness'', qc_minimum = 0,
       qc_maximum = 255, qc_step = 1, qc_default_value = 128, qc_flags = 0\<rparr>,
      \<lparr>qc_id = 0x009A0910, qc_type = 2, qc_name = ''Privacy Shutter'', qc_minimum = 0,
       qc_maximum = 1, qc_step = 1, qc_default_value = 0, qc_flags = 1\<rparr>,
      \<lparr>qc_id = 0x0A046D05, qc_type = 3, qc_name = ''LED1 Mode'', qc_minimum = 0,
       qc_maximum = 3, qc_step = 1, qc_default_value = 0, qc_flags = 0\<rparr>,
      \<lparr>qc_id = 0x0A046D06, qc_type = 1, qc_name = ''Emission Level'', qc_minimum = 0,
       qc_maximum = 3, qc_step = 1, qc_default_value = 0, qc_flags = 0\<rparr>]"

text \<open>
  Profile documents as libyaml reports them. \<open>resolution_doc\<close> is the file
  \<^verbatim>\<open>resolution: [1280, 720]\<close>; \<open>resolution_fps_doc\<close> adds the line \<^verbatim>\<open>fps: 30\<close>;
  \<open>role_doc\<close> is the file \<^verbatim>\<open>role: camera\<close>.
\<close>

definition resolution_doc :: "yaml_event_t option list" where
  "resolution_doc =
     [Some YAML_STREAM_START_EVENT, Some YAML_DOCUMENT_START_EVENT,
      Some YAML_MAPPING_START_EVENT,
      Some (YAML_SCALAR_EVENT ''resolution''), Some YAML_SEQUENCE_START_EVENT,
      Some (YAML_SCALAR_EVENT ''1280''), Some (YAML_SCALAR_EVENT ''720''),
      Some YAML_SEQUENCE_END_EVENT,
      Some YAML_MAPPING_END_EVENT, Some YAML_DOCUMENT_END_EVENT,
      Some YAML_STREAM_END_EVENT]"

definition resolution_fps_doc :: "yaml_event_t option list" where
  "resolution_fps_doc =
     [Some YAML_STREAM_START_EVENT, Some YAML_DOCUMENT_START_EVENT,
      Some YAML_MAPPING_START_EVENT,
      Some (YAML_SCALAR_EVENT ''resolution''), Some YAML_SEQUENCE_START_EVENT,
      Some (YAML_SCALAR_EVENT ''1280''), Some (YAML_SCALAR_EVENT ''720''),
      Some YAML_SEQUENCE_END_EVENT,
      Some (YAML_SCALAR_EVENT ''fps''), Some (YAML_SCALAR_EVENT ''30''),
      Some YAML_MAPPING_END_EVENT, Some YAML_DOCUMENT_END_EVENT,
      Some YAML_STREAM_END_EVENT]"

definition role_doc :: "yaml_event_t option list" where
  "role_doc =
     [Some YAML_STREAM_START_EVENT, Some YAML_DOCUMENT_START_EVENT,
      Some YAML_MAPPING_START_EVENT,
      Some (YAML_SCALAR_EVENT ''role''), Some (YAML_SCALAR_EVENT ''camera''),
      Some YAML_MAPPING_END_EVENT, Some YAML_DOCUMENT_END_EVENT,
      Some YAML_STREAM_END_EVENT]"

text \<open>Surroundings in which every path opens to the given document and nothing fails.\<close>

definition one_file :: "yaml_event_t option list \<Rightarrow> loader_env" where
  "one_file results =
     \<lparr>fopen_result = (\<lambda>path. Inr results), calloc_ok = True, yaml_init_ok = True\<rparr>"

definition sys0 :: sys_state where
  "sys0 = \<lparr>ioctl_log = [], rt_log = []\<rparr>"

definition frame0 :: dsv4l2_frame_t where
  "frame0 = \<lparr>data = None, len = 0, timestamp_ns = 0, sequence = 0\<rparr>"

definition bio_frame0 :: dsv4l2_biometric_frame_t where
  "bio_frame0 = \<lparr>bio_data = None, bio_len = 0, bio_timestamp_ns = 0, bio_sequence = 0\<rparr>"

section \<open>Verified properties\<close>

text \<open>
  C10. dsv4l2_get_tempest_state on a NULL handle returns DISABLED, whose numeric value is
  0 and not the -EINVAL the other entry points give for NULL, and changes nothing. On a
  non-null handle it returns the cached state and leaves the device with every field as
  it was and the system state (ioctl log, runtime log) as it was. The value is the one
  the capture functions read before the policy gate, and after dsv4l2_set_tempest_state
  it is the target that call cached, with the device still as that call left it.
\<close>

theorem get_tempest_state_reads_without_writing:
  "dsv4l2_get_tempest_state_call None s = (DSV4L2_TEMPEST_DISABLED, None, s)
   \<and> tempest_value (fst (dsv4l2_get_tempest_state_call None s)) = 0
   \<and> tempest_value (fst (dsv4l2_get_tempest_state_call None s)) \<noteq> - EINVAL
   \<and> fst (dsv4l2_get_tempest_state_call (Some dev_ex) s) = tempest_state dev_ex
   \<and> fst (snd (dsv4l2_get_tempest_state_call (Some dev_ex) s)) = Some dev_ex
   \<and> snd (snd (dsv4l2_get_tempest_state_call (Some dev_ex) s)) = s
   \<and> fst (dsv4l2_get_tempest_state_call dev s) = dsv4l2_get_tempest_state dev
   \<and> dsv4l2_get_tempest_state_call
         (fst (snd (dsv4l2_set_tempest_state (Some dev_ex) target s)))
         (snd (snd (dsv4l2_set_tempest_state (Some dev_ex) target s)))
       = (target, Some (dev_ex\<lparr>tempest_state := target\<rparr>),
          snd (snd (dsv4l2_set_tempest_state (Some dev_ex) target s)))"
proof -
  have null: "dsv4l2_get_tempest_state_call None s = (DSV4L2_TEMPEST_DISABLED, None, s)"
    by (simp add: dsv4l2_get_tempest_state_call_def)
  have open_dev: "dsv4l2_get_tempest_state_call (Some d) s' = (tempest_state d, Some d, s')"
    for d s'
    by (simp add: dsv4l2_get_tempest_state_call_def)
  have same_read: "fst (dsv4l2_get_tempest_state_call dev s) = dsv4l2_get_tempest_state dev"
    by (cases dev) (simp_all add: dsv4l2_get_tempest_state_call_def)
  have after_set:
    "fst (snd (dsv4l2_set_tempest_state (Some dev_ex) target s))
       = Some (dev_ex\<lparr>tempest_state := target\<rparr>)"
    by (simp add: dsv4l2_set_tempest_state_def Let_def)
  show ?thesis
    by (simp add: null open_dev same_read after_set EINVAL_def)
qed

theorem get_tempest_state_reads_without_writing_witness:
  "dsv4l2_get_tempest_state_call None sys0 = (DSV4L2_TEMPEST_DISABLED, None, sys0)
   \<and> dsv4l2_get_tempest_state_call
        (Some (iris_device\<lparr>tempest_state := DSV4L2_TEMPEST_LOCKDOWN, streaming := 1\<rparr>)) sys0
      = (DSV4L2_TEMPEST_LOCKDOWN,
         Some (iris_device\<lparr>tempest_state := DSV4L2_TEMPEST_LOCKDOWN, streaming := 1\<rparr>), sys0)"
  using get_tempest_state_reads_without_writing
    [of sys0 "iris_device\<lparr>tempest_state := DSV4L2_TEMPEST_LOCKDOWN, streaming := 1\<rparr>"
        None DSV4L2_TEMPEST_HIGH]
  by (simp add: prod_eq_iff)

text \<open>
  C1. A capture call (generic or biometric) with a non-null handle and a non-null frame
  pointer on a device whose cached TEMPEST state is LOCKDOWN returns -EACCES, whatever
  the driver, the streaming flag, the role, the layer and the other fields are.
\<close>

theorem lockdown_denies_capture:
  assumes "tempest_state dev_ex = DSV4L2_TEMPEST_LOCKDOWN"
  shows "fst (dsv4l2_capture_frame K (Some dev_ex) (Some frame) s) = - EACCES
       \<and> fst (dsv4l2_capture_iris K (Some dev_ex) (Some bframe) s) = - EACCES"
  using assms
  by (simp add: dsv4l2_capture_frame_def dsv4l2_capture_iris_def
      dsv4l2_policy_check_capture_def Let_def EACCES_def)

theorem lockdown_denies_capture_witness:
  "tempest_state (iris_device\<lparr>tempest_state := DSV4L2_TEMPEST_LOCKDOWN, streaming := 1\<rparr>)
     = DSV4L2_TEMPEST_LOCKDOWN
   \<and> fst (dsv4l2_capture_frame plain_kernel
            (Some (iris_device\<lparr>tempest_state := DSV4L2_TEMPEST_LOCKDOWN, streaming := 1\<rparr>))
            (Some frame0) sys0) = - 13
   \<and> fst (dsv4l2_capture_iris plain_kernel
            (Some (iris_device\<lparr>tempest_state := DSV4L2_TEMPEST_LOCKDOWN, streaming := 1\<rparr>))
            (Some bio_frame0) sys0) = - 13"
  using lockdown_denies_capture
    [of "iris_device\<lparr>tempest_state := DSV4L2_TEMPEST_LOCKDOWN, streaming := 1\<rparr>"
        plain_kernel frame0 sys0 bio_frame0]
  by (simp add: EACCES_def)

text \<open>
  C2 (as the code has it). The policy gate looks at the TEMPEST state alone: for a device
  whose negotiated format exceeds its layer's cap it still answers -EACCES exactly in
  LOCKDOWN and 0 (allow) in every other state.
\<close>

theorem policy_gate_ignores_layer_cap:
  assumes "exceeds_layer_cap table dev_ex"
  shows "fst (dsv4l2_policy_check_capture (Some dev_ex) st ctx s)
           = (if st = DSV4L2_TEMPEST_LOCKDOWN then - EACCES else 0)"
  by (simp add: dsv4l2_policy_check_capture_def Let_def)

theorem policy_gate_ignores_layer_cap_witness:
  "exceeds_layer_cap layer3_table iris_device
   \<and> fst (dsv4l2_policy_check_capture (Some iris_device) DSV4L2_TEMPEST_LOW
            ''dsv4l2_capture_frame'' sys0) = 0"
proof -
  have cap: "exceeds_layer_cap layer3_table iris_device"
    by (simp add: exceeds_layer_cap_def layer3_table_def iris_device_def)
  show ?thesis
    using cap policy_gate_ignores_layer_cap
      [OF cap, of DSV4L2_TEMPEST_LOW "''dsv4l2_capture_frame''" sys0]
    by simp
qed

text \<open>
  Counterexample to C2 as stated: layer 3 capped at 1280x720, 1920x1080 negotiated,
  state DISABLED; the gate run by a capture allows (0, not -EACCES).
\<close>

theorem layer_cap_not_enforced_counterexample:
  "exceeds_layer_cap layer3_table iris_device
   \<and> fst (dsv4l2_policy_check_capture (Some iris_device)
            (dsv4l2_get_tempest_state (Some iris_device)) ''dsv4l2_capture_frame'' sys0) = 0
   \<and> (0 :: int) \<noteq> - EACCES"
  by (simp add: exceeds_layer_cap_def layer3_table_def iris_device_def
      dsv4l2_policy_check_capture_def Let_def EACCES_def)

text \<open>
  C3. When the policy gate denies (for the device's cached state), a capture call with
  non-null arguments returns -EACCES, hands back the device and the caller's frame as
  they were, and leaves a system state that differs from the old one only by the
  policy_check event in the runtime log: the ioctl log is the same, so no DQBUF or QBUF
  was issued.
\<close>

theorem denied_capture_touches_nothing:
  assumes "fst (dsv4l2_policy_check_capture (Some dev_ex)
                  (dsv4l2_get_tempest_state (Some dev_ex)) ctx s) \<noteq> 0"
  shows "dsv4l2_capture_frame K (Some dev_ex) (Some frame) s =
           (- EACCES, Some dev_ex, Some frame,
            s\<lparr>rt_log := rt_log s @
                 [LOG_POLICY_CHECK (dev_token dev_ex) ''dsv4l2_capture_frame'' (- EACCES)]\<rparr>)
       \<and> dsv4l2_capture_iris K (Some dev_ex) (Some bframe) s =
           (- EACCES, Some dev_ex, Some bframe,
            s\<lparr>rt_log := rt_log s @
                 [LOG_POLICY_CHECK (dev_token dev_ex) ''dsv4l2_capture_iris'' (- EACCES)]\<rparr>)"
  using assms
  by (simp add: dsv4l2_capture_frame_def dsv4l2_capture_iris_def
      dsv4l2_policy_check_capture_def Let_def EACCES_def dsv4l2rt_log_policy_check_def
      split: if_splits)

theorem denied_capture_touches_nothing_witness:
  "fst (dsv4l2_policy_check_capture
          (Some (iris_device\<lparr>tempest_state := DSV4L2_TEMPEST_LOCKDOWN, streaming := 1\<rparr>))
          (dsv4l2_get_tempest_state
             (Some (iris_device\<lparr>tempest_state := DSV4L2_TEMPEST_LOCKDOWN, streaming := 1\<rparr>)))
          ''capture'' sys0) \<noteq> 0
   \<and> dsv4l2_capture_frame plain_kernel
        (Some (iris_device\<lparr>tempest_state := DSV4L2_TEMPEST_LOCKDOWN, streaming := 1\<rparr>))
        (Some frame0) sys0 =
        (- 13, Some (iris_device\<lparr>tempest_state := DSV4L2_TEMPEST_LOCKDOWN, streaming := 1\<rparr>),
         Some frame0,
         \<lparr>ioctl_log = [],
          rt_log = [LOG_POLICY_CHECK 0xA2C3D4E0 ''dsv4l2_capture_frame'' (- 13)]\<rparr>)"
proof -
  have deny: "fst (dsv4l2_policy_check_capture
          (Some (iris_device\<lparr>tempest_state := DSV4L2_TEMPEST_LOCKDOWN, streaming := 1\<rparr>))
          (dsv4l2_get_tempest_state
             (Some (iris_device\<lparr>tempest_state := DSV4L2_TEMPEST_LOCKDOWN, streaming := 1\<rparr>)))
          ''capture'' sys0) \<noteq> 0"
    by (simp add: dsv4l2_policy_check_capture_def Let_def EACCES_def)
  have tok: "dev_token (iris_device\<lparr>tempest_state := DSV4L2_TEMPEST_LOCKDOWN, streaming := 1\<rparr>)
               = 0xA2C3D4E0"
    by (simp add: dev_token_def iris_device_def)
  show ?thesis
    using deny denied_capture_touches_nothing [OF deny, of plain_kernel frame0 bio_frame0]
    by (simp add: tok EACCES_def sys0_def)
qed

text \<open>
  C4 (as the code has it). On an open device that is not streaming and whose cached
  TEMPEST state is not LOCKDOWN, a capture call returns -EINVAL (also when the frame
  pointer is NULL).
\<close>

theorem capture_not_streaming_einval:
  assumes "streaming dev_ex = 0"
    and "tempest_state dev_ex \<noteq> DSV4L2_TEMPEST_LOCKDOWN"
  shows "fst (dsv4l2_capture_frame K (Some dev_ex) out_frame s) = - EINVAL
       \<and> fst (dsv4l2_capture_iris K (Some dev_ex) out_bframe s) = - EINVAL"
  using assms
  by (simp add: dsv4l2_capture_frame_def dsv4l2_capture_iris_def
      dsv4l2_policy_check_capture_def Let_def split: option.splits)

theorem capture_not_streaming_einval_witness:
  "streaming iris_device = 0
   \<and> tempest_state iris_device \<noteq> DSV4L2_TEMPEST_LOCKDOWN
   \<and> fst (dsv4l2_capture_frame plain_kernel (Some iris_device) (Some frame0) sys0) = - 22
   \<and> fst (dsv4l2_capture_iris plain_kernel (Some iris_device) (Some bio_frame0) sys0) = - 22"
proof -
  have a: "streaming iris_device = 0" by (simp add: iris_device_def)
  have b: "tempest_state iris_device \<noteq> DSV4L2_TEMPEST_LOCKDOWN" by (simp add: iris_device_def)
  show ?thesis
    using a b capture_not_streaming_einval
      [OF a b, of plain_kernel "Some frame0" sys0 "Some bio_frame0"]
    by (simp add: EINVAL_def)
qed

text \<open>
  Counterexample to C4 as stated: an open device that is not streaming but is in
  LOCKDOWN gets -EACCES (13), not -EINVAL (22), from both capture calls.
\<close>

theorem capture_not_streaming_lockdown_counterexample:
  "streaming (iris_device\<lparr>tempest_state := DSV4L2_TEMPEST_LOCKDOWN\<rparr>) = 0
   \<and> fst (dsv4l2_capture_frame plain_kernel
            (Some (iris_device\<lparr>tempest_state := DSV4L2_TEMPEST_LOCKDOWN\<rparr>))
            (Some frame0) sys0) = - 13
   \<and> fst (dsv4l2_capture_iris plain_kernel
            (Some (iris_device\<lparr>tempest_state := DSV4L2_TEMPEST_LOCKDOWN\<rparr>))
            (Some bio_frame0) sys0) = - 13
   \<and> - EINVAL = (- 22 :: int)"
  by (simp add: dsv4l2_capture_frame_def dsv4l2_capture_iris_def
      dsv4l2_policy_check_capture_def Let_def EACCES_def EINVAL_def iris_device_def)

text \<open>
  What dsv4l2_set_tempest_state does on every non-null device, with or without a TEMPEST
  mapping, for every target state: it returns 0, sets the cached state to the target and
  logs tempest_transition(old, target); the system state changes in the runtime log
  only, so no ioctl is issued.
\<close>

lemma set_tempest_state_updates_cache_and_logs:
  "dsv4l2_set_tempest_state (Some dev_ex) target s =
     (0, Some (dev_ex\<lparr>tempest_state := target\<rparr>),
      s\<lparr>rt_log := rt_log s @
           [LOG_TEMPEST_TRANSITION (dev_token dev_ex) (tempest_state dev_ex) target]\<rparr>)"
  by (simp add: dsv4l2_set_tempest_state_def Let_def dsv4l2rt_log_tempest_transition_def)

text \<open>
  C5. The claim has dsv4l2_set_tempest_state write the target's mapped value to the
  mapped control through S_CTRL, update the cache and log the transition. On the device
  \<open>iris_device\<close>, whose profile maps control 0x009A0910 with HIGH = 2, the call with
  target HIGH returns 0, caches HIGH and logs tempest_transition(DISABLED, HIGH), but the
  ioctl log is still empty afterwards: the S_CTRL write of the mapped value is missing
  (the source has a TODO in its place).
\<close>

theorem set_tempest_state_skips_control_write:
  "tempest_mapping_installed iris_device
   \<and> mapped_value (tempest_control iris_profile) DSV4L2_TEMPEST_HIGH = 2
   \<and> dsv4l2_set_tempest_state (Some iris_device) DSV4L2_TEMPEST_HIGH sys0 =
       (0, Some (iris_device\<lparr>tempest_state := DSV4L2_TEMPEST_HIGH\<rparr>),
        \<lparr>ioctl_log = [],
         rt_log = [LOG_TEMPEST_TRANSITION 0xA2C3D4E0 DSV4L2_TEMPEST_DISABLED
                     DSV4L2_TEMPEST_HIGH]\<rparr>)
   \<and> (fd iris_device, VIDIOC_S_CTRL \<lparr>ctrl_id = 0x009A0910, ctrl_value = 2\<rparr>)
        \<notin> set (ioctl_log (snd (snd (dsv4l2_set_tempest_state (Some iris_device)
                                        DSV4L2_TEMPEST_HIGH sys0))))"
  by (simp add: tempest_mapping_installed_def iris_device_def iris_profile_def
      dsv4l2_set_tempest_state_def Let_def dsv4l2rt_log_tempest_transition_def sys0_def
      dev_token_def)

text \<open>
  C9. dsv4l2_set_framerate issues G_PARM and, when that succeeds, one S_PARM whose
  argument is the structure G_PARM returned with \<open>timeperframe.numerator\<close> set to the
  \<open>fps_den\<close> argument and \<open>timeperframe.denominator\<close> set to the \<open>fps_num\<close>
  argument. (When G_PARM fails nothing is written.)
\<close>

theorem set_framerate_swaps_fraction:
  "ioctl_log (snd (snd (dsv4l2_set_framerate K (Some dev_ex) fps_num_arg fps_den_arg s))) =
     ioctl_log s @ (fd dev_ex, VIDIOC_G_PARM framerate_parm) #
       (case k_G_PARM K (ioctl_log s) (fd dev_ex) framerate_parm of
          Inl errno \<Rightarrow> []
        | Inr parm \<Rightarrow>
            [(fd dev_ex, VIDIOC_S_PARM
                (parm\<lparr>timeperframe :=
                   \<lparr>numerator = fps_den_arg, denominator = fps_num_arg\<rparr>\<rparr>))])"
  by (simp add: dsv4l2_set_framerate_def ioctl_G_PARM_def ioctl_S_PARM_def Let_def
      split: sum.splits prod.splits)

theorem set_framerate_swaps_fraction_witness:
  "ioctl_log (snd (snd (dsv4l2_set_framerate plain_kernel (Some iris_device) 30 1 sys0))) =
     [(3, VIDIOC_G_PARM framerate_parm),
      (3, VIDIOC_S_PARM
            \<lparr>parm_type = 1, capability = 0x1000, capturemode = 0,
             timeperframe = \<lparr>numerator = 1, denominator = 30\<rparr>,
             extendedmode = 0, readbuffers = 0\<rparr>)]"
  using set_framerate_swaps_fraction [of plain_kernel iris_device 30 1 sys0]
  by (simp add: plain_kernel_def iris_device_def sys0_def framerate_parm_def
      V4L2_BUF_TYPE_VIDEO_CAPTURE_def)

subsection \<open>Control discovery\<close>

text \<open>
  Auxiliary facts: the bits of a next-control request, the substring test, and the
  kernel model answering with the successor of a control in an ascending list.
\<close>

lemma id_and_mask:
  fixes x :: "32 word"
  assumes "x \<le> V4L2_CTRL_ID_MASK"
  shows "x AND V4L2_CTRL_ID_MASK = x"
proof -
  have "uint x \<le> uint (0x0FFFFFFF :: 32 word)"
    using assms by (simp add: word_le_def V4L2_CTRL_ID_MASK_def)
  then have "uint x < 2 ^ 28" by simp
  then have "x AND mask 28 = x" by (simp add: mask_eq_iff)
  then show ?thesis by (simp add: V4L2_CTRL_ID_MASK_def mask_eq_exp_minus_1)
qed

lemma next_request_id:
  fixes x :: "32 word"
  assumes "x \<le> V4L2_CTRL_ID_MASK"
  shows "(x OR V4L2_CTRL_FLAG_NEXT_CTRL) AND V4L2_CTRL_ID_MASK = x"
proof -
  have "(x OR V4L2_CTRL_FLAG_NEXT_CTRL) AND V4L2_CTRL_ID_MASK
          = (x AND V4L2_CTRL_ID_MASK) OR (V4L2_CTRL_FLAG_NEXT_CTRL AND V4L2_CTRL_ID_MASK)"
    by (rule word_ao_dist)
  also have "V4L2_CTRL_FLAG_NEXT_CTRL AND V4L2_CTRL_ID_MASK = 0"
    by (simp add: V4L2_CTRL_FLAG_NEXT_CTRL_def V4L2_CTRL_ID_MASK_def)
  finally show ?thesis using id_and_mask [OF assms] by simp
qed

lemma next_request_flag:
  fixes x :: "32 word"
  shows "(x OR V4L2_CTRL_FLAG_NEXT_CTRL) AND V4L2_CTRL_FLAG_NEXT_CTRL \<noteq> 0"
proof -
  have "(x OR V4L2_CTRL_FLAG_NEXT_CTRL) AND V4L2_CTRL_FLAG_NEXT_CTRL = V4L2_CTRL_FLAG_NEXT_CTRL"
    by (simp add: word_ao_absorbs word_bw_comms)
  then show ?thesis by (simp add: V4L2_CTRL_FLAG_NEXT_CTRL_def)
qed

lemma strstr_found_iff: "strstr_found h n \<longleftrightarrow> sublist n h"
  by (induction h) (auto simp: sublist_Cons_right)

lemma first_pattern_iff: "first_pattern l ps \<noteq> 0 \<longleftrightarrow> (\<exists>p \<in> set ps. sublist p l)"
  by (induction ps) (auto simp: strstr_found_iff)

lemma is_tempest_control_iff:
  "length name \<le> 255 \<Longrightarrow>
   is_tempest_control name \<noteq> 0 \<longleftrightarrow> (\<exists>p \<in> set tempest_patterns. sublist p (map tolower_c name))"
  by (simp add: is_tempest_control_def first_pattern_iff)

lemma find_after:
  assumes "sorted_wrt (<) (map qc_id (pre @ c # rest))"
  shows "find (\<lambda>x. qc_id c < qc_id x) (pre @ c # rest) = (case rest of [] \<Rightarrow> None | c' # _ \<Rightarrow> Some c')"
proof -
  have pre: "\<forall>x \<in> set pre. \<not> qc_id c < qc_id x"
    using assms by (auto simp: sorted_wrt_append)
  have rest: "\<forall>x \<in> set rest. qc_id c < qc_id x"
    using assms by (auto simp: sorted_wrt_append)
  have "find (\<lambda>x. qc_id c < qc_id x) (pre @ c # rest) = find (\<lambda>x. qc_id c < qc_id x) rest"
    using pre by (induction pre) auto
  also have "\<dots> = (case rest of [] \<Rightarrow> None | c' # _ \<Rightarrow> Some c')"
    using rest by (cases rest) auto
  finally show ?thesis .
qed

lemma queryctrl_after:
  assumes "sorted_wrt (<) (map qc_id (pre @ c # rest))" and "qc_id c \<le> V4L2_CTRL_ID_MASK"
  shows "queryctrl_of (pre @ c # rest) (c\<lparr>qc_id := qc_id c OR V4L2_CTRL_FLAG_NEXT_CTRL\<rparr>)
           = (case rest of [] \<Rightarrow> Inl EINVAL | c' # _ \<Rightarrow> Inr c')"
proof -
  let ?q = "c\<lparr>qc_id := qc_id c OR V4L2_CTRL_FLAG_NEXT_CTRL\<rparr>"
  have w: "qc_id ?q AND V4L2_CTRL_ID_MASK = qc_id c"
    using next_request_id [OF assms(2)] by simp
  have n: "qc_id ?q AND V4L2_CTRL_FLAG_NEXT_CTRL \<noteq> 0"
    using next_request_flag [of "qc_id c"] by simp
  have "queryctrl_of (pre @ c # rest) ?q =
          (case find (\<lambda>x. qc_id c < qc_id x) (pre @ c # rest) of
             None \<Rightarrow> Inl EINVAL | Some x \<Rightarrow> Inr x)"
    unfolding queryctrl_of_def Let_def w using n by simp
  then show ?thesis
    by (simp add: find_after [OF assms(1)] split: list.splits)
qed

lemma queryctrl_first:
  assumes "\<forall>c \<in> set cs. 0 < qc_id c"
  shows "queryctrl_of cs enum_start = (case cs of [] \<Rightarrow> Inl EINVAL | c' # _ \<Rightarrow> Inr c')"
proof -
  have a: "qc_id enum_start AND V4L2_CTRL_ID_MASK = 0"
    by (simp add: enum_start_def V4L2_CTRL_FLAG_NEXT_CTRL_def V4L2_CTRL_ID_MASK_def)
  have b: "qc_id enum_start AND V4L2_CTRL_FLAG_NEXT_CTRL \<noteq> 0"
    by (simp add: enum_start_def V4L2_CTRL_FLAG_NEXT_CTRL_def)
  show ?thesis using assms
    by (cases cs) (simp_all add: queryctrl_of_def a b)
qed


lemma loop_over_controls:
  assumes "sorted_wrt (<) (map qc_id (pre @ rest))"
    and "\<forall>c \<in> set rest. qc_id c \<le> V4L2_CTRL_ID_MASK \<and> length (qc_name c) \<le> 255"
    and "queryctrl_of (pre @ rest) q = (case rest of [] \<Rightarrow> Inl EINVAL | c' # _ \<Rightarrow> Inr c')"
  shows "map_option fst (enum_controls_loop (K\<lparr>k_QUERYCTRL := \<lambda>h f. queryctrl_of (pre @ rest)\<rparr>) f
            tempest_search_callback q ctx s)
         = Some (case find tempest_like rest of
                   None \<Rightarrow> ctx
                 | Some c \<Rightarrow> ctx\<lparr>found_id := qc_id c, found := 1\<rparr>)"
  using assms
proof (induction rest arbitrary: pre q s)
  case Nil
  then show ?case
    by (subst enum_controls_loop.simps) (simp add: ioctl_QUERYCTRL_def)
next
  case (Cons c rest)
  let ?K = "K\<lparr>k_QUERYCTRL := \<lambda>h f. queryctrl_of (pre @ c # rest)\<rparr>"
  let ?q' = "c\<lparr>qc_id := qc_id c OR V4L2_CTRL_FLAG_NEXT_CTRL\<rparr>"
  have srt: "sorted_wrt (<) (map qc_id ((pre @ [c]) @ rest))" using Cons.prems(1) by simp
  have bnd: "\<forall>c \<in> set rest. qc_id c \<le> V4L2_CTRL_ID_MASK \<and> length (qc_name c) \<le> 255"
    using Cons.prems(2) by simp
  have nxt: "queryctrl_of ((pre @ [c]) @ rest) ?q' = (case rest of [] \<Rightarrow> Inl EINVAL | c' # _ \<Rightarrow> Inr c')"
    using queryctrl_after [of pre c rest] Cons.prems(1,2) by simp
  have IH: "\<And>s'. map_option fst (enum_controls_loop ?K f tempest_search_callback ?q' ctx s')
         = Some (case find tempest_like rest of
                   None \<Rightarrow> ctx
                 | Some c \<Rightarrow> ctx\<lparr>found_id := qc_id c, found := 1\<rparr>)"
    using Cons.IH [OF srt bnd nxt] by simp
  have tl: "tempest_like c \<longleftrightarrow> qc_flags c AND V4L2_CTRL_FLAG_DISABLED = 0 \<and> is_tempest_control (qc_name c) \<noteq> 0"
    using Cons.prems(2) by (simp add: tempest_like_def is_tempest_control_iff)
  show ?case
    apply (subst enum_controls_loop.simps)
    using Cons.prems(3) IH tl
    by (auto simp add: ioctl_QUERYCTRL_def tempest_search_callback_def)
qed

text \<open>
  C6. For a device whose driver presents the controls \<open>ctrls\<close> (ascending ids within the
  V4L2 id range, names fitting the 32-byte name field) through QUERYCTRL/NEXT_CTRL,
  dsv4l2_discover_tempest_control terminates and returns 0 with the id of the first
  control of the list that is not flagged disabled and whose lowercased name contains one
  of the eight patterns; when there is none it returns -ENOENT and leaves the output
  word as it was.
\<close>

theorem discover_returns_first_tempest_control:
  assumes "sorted_wrt (<) (map qc_id ctrls)"
    and "\<forall>c \<in> set ctrls. 0 < qc_id c \<and> qc_id c \<le> V4L2_CTRL_ID_MASK \<and> length (qc_name c) < 32"
  shows "map_option (\<lambda>(rc, out, s'). (rc, out))
           (dsv4l2_discover_tempest_control (K\<lparr>k_QUERYCTRL := \<lambda>h f. queryctrl_of ctrls\<rparr>)
              (Some dev_ex) (Some out0) s)
         = Some (case find tempest_like ctrls of
                   None \<Rightarrow> (- ENOENT, Some out0)
                 | Some c \<Rightarrow> (0, Some (qc_id c)))"
proof -
  let ?K = "K\<lparr>k_QUERYCTRL := \<lambda>h f. queryctrl_of ctrls\<rparr>"
  let ?ctx0 = "\<lparr>found_id = 0, found = 0\<rparr>"
  have first: "queryctrl_of ([] @ ctrls) enum_start = (case ctrls of [] \<Rightarrow> Inl EINVAL | c' # _ \<Rightarrow> Inr c')"
    using assms(2) by (simp add: queryctrl_first)
  have bnd: "\<forall>c \<in> set ctrls. qc_id c \<le> V4L2_CTRL_ID_MASK \<and> length (qc_name c) \<le> 255"
    using assms(2) by auto
  have srt: "sorted_wrt (<) (map qc_id ([] @ ctrls))" using assms(1) by simp
  have "map_option fst (enum_controls_loop ?K (fd dev_ex) tempest_search_callback enum_start ?ctx0 s)
          = Some (case find tempest_like ctrls of
                    None \<Rightarrow> ?ctx0
                  | Some c \<Rightarrow> ?ctx0\<lparr>found_id := qc_id c, found := 1\<rparr>)"
    using loop_over_controls [OF srt bnd first, of K "fd dev_ex" ?ctx0 s] by simp
  then obtain s1 where loop:
    "enum_controls_loop ?K (fd dev_ex) tempest_search_callback enum_start ?ctx0 s
       = Some (case find tempest_like ctrls of
                 None \<Rightarrow> ?ctx0
               | Some c \<Rightarrow> ?ctx0\<lparr>found_id := qc_id c, found := 1\<rparr>, s1)"
    by (cases "enum_controls_loop ?K (fd dev_ex) tempest_search_callback enum_start ?ctx0 s") auto
  show ?thesis
    by (simp add: dsv4l2_discover_tempest_control_def dsv4l2_enum_controls_def loop
        split: option.splits)
qed


theorem discover_returns_first_tempest_control_witness:
  "sorted_wrt (<) (map qc_id webcam_controls)
   \<and> list_all (\<lambda>c. 0 < qc_id c \<and> qc_id c \<le> V4L2_CTRL_ID_MASK \<and> length (qc_name c) < 32)
        webcam_controls
   \<and> map_option (\<lambda>(rc, out, s'). (rc, out))
        (dsv4l2_discover_tempest_control
           (plain_kernel\<lparr>k_QUERYCTRL := \<lambda>h f. queryctrl_of webcam_controls\<rparr>)
           (Some iris_device) (Some 0) sys0)
       = Some (0, Some 0x0A046D05)
   \<and> map_option (\<lambda>(rc, out, s'). (rc, out))
        (dsv4l2_discover_tempest_control
           (plain_kernel\<lparr>k_QUERYCTRL := \<lambda>h f. queryctrl_of (take 2 webcam_controls)\<rparr>)
           (Some iris_device) (Some 0) sys0)
       = Some (- 2, Some 0)"
proof -
  have s: "sorted_wrt (<) (map qc_id webcam_controls)"
    by (simp add: webcam_controls_def)
  have b: "\<forall>c \<in> set webcam_controls.
             0 < qc_id c \<and> qc_id c \<le> V4L2_CTRL_ID_MASK \<and> length (qc_name c) < 32"
    by (simp add: webcam_controls_def V4L2_CTRL_ID_MASK_def)
  have s2: "sorted_wrt (<) (map qc_id (take 2 webcam_controls))"
    by (simp add: webcam_controls_def)
  have b2: "\<forall>c \<in> set (take 2 webcam_controls).
             0 < qc_id c \<and> qc_id c \<le> V4L2_CTRL_ID_MASK \<and> length (qc_name c) < 32"
    by (simp add: webcam_controls_def V4L2_CTRL_ID_MASK_def)
  have f: "find tempest_like webcam_controls = Some (webcam_controls ! 2)"
    by (simp add: webcam_controls_def tempest_like_def tempest_patterns_def tolower_c_def
        sublist_Cons_right V4L2_CTRL_FLAG_DISABLED_def)
  have f2: "find tempest_like (take 2 webcam_controls) = None"
    by (simp add: webcam_controls_def tempest_like_def tempest_patterns_def tolower_c_def
        sublist_Cons_right V4L2_CTRL_FLAG_DISABLED_def)
  show ?thesis
    using s b
      discover_returns_first_tempest_control [OF s b, of plain_kernel iris_device 0 sys0]
      discover_returns_first_tempest_control [OF s2 b2, of plain_kernel iris_device 0 sys0]
    by (simp add: f f2 ENOENT_def list_all_iff) (simp add: webcam_controls_def)
qed

subsection \<open>Profile loader\<close>

text \<open>
  Auxiliary facts. An invariant of the loader's state that every event handler keeps
  holds when the loop leaves through STREAM-END; a key that is no scalar of the document
  is never the current key, so the field it would set keeps its initial value.
\<close>

lemma parse_events_invariant:
  assumes "parse_events evs st = Some st'"
    and "I st"
    and "\<And>ev s. Some ev \<in> set evs \<Longrightarrow> I s \<Longrightarrow> I (handle_event ev s)"
  shows "I st'"
  using assms
proof (induction evs st rule: parse_events.induct)
  case (1 st)
  then show ?case by simp
next
  case (2 rest st)
  then show ?case by simp
next
  case (3 ev rest st)
  show ?case
  proof (cases "ev = YAML_STREAM_END_EVENT")
    case True
    with "3.prems" show ?thesis by simp
  next
    case False
    have run: "parse_events rest (handle_event ev st) = Some st'"
      using "3.prems"(1) False by simp
    have start: "I (handle_event ev st)"
      using "3.prems"(2,3) by simp
    show ?thesis
      using "3.IH" [OF False run start] "3.prems"(3) by simp
  qed
qed

lemma take_63_eq:
  assumes "length k < 63"
  shows "take 63 v = k \<longleftrightarrow> v = k"
proof
  assume eq: "take 63 v = k"
  then have "length (take 63 v) < 63" using assms by simp
  then have "length v < 63" by (simp add: min_def split: if_splits)
  then show "v = k" using eq by simp
next
  assume "v = k"
  then show "take 63 v = k" using assms by simp
qed

lemma set_field_tempest_control [simp]:
  "tempest_control (set_field key v p) = tempest_control p"
  by (simp add: set_field_def)

lemma set_field_resolution [simp]:
  "width (set_field key v p) = width p" "height (set_field key v p) = height p"
  by (simp_all add: set_field_def)

lemma handle_event_key:
  assumes "length k < 63" and "k \<noteq> []" and "ev \<noteq> YAML_SCALAR_EVENT k"
    and "current_key s \<noteq> k"
  shows "current_key (handle_event ev s) \<noteq> k"
  using assms
  by (cases ev) (auto simp: Let_def take_63_eq)


lemma handle_event_field:
  assumes "current_key s \<noteq> k"
    and F_set: "\<And>key v p. key \<noteq> k \<Longrightarrow> F (set_field key v p) = F p"
    and F_tc: "\<And>p m. F (p\<lparr>tempest_control := m\<rparr>) = F p"
  shows "F (prof (handle_event ev s)) = F (prof s)"
  using assms(1) by (cases ev) (auto simp: Let_def F_set F_tc)

lemma field_keeps_default:
  assumes run: "parse_events evs st = Some st'"
    and k: "length k < 63" "k \<noteq> []" "Some (YAML_SCALAR_EVENT k) \<notin> set evs"
    and st: "current_key st \<noteq> k"
    and F_set: "\<And>key v p. key \<noteq> k \<Longrightarrow> F (set_field key v p) = F p"
    and F_tc: "\<And>p m. F (p\<lparr>tempest_control := m\<rparr>) = F p"
  shows "F (prof st') = F (prof st)"
proof -
  let ?I = "\<lambda>s. current_key s \<noteq> k \<and> F (prof s) = F (prof st)"
  have step: "?I (handle_event ev s)" if "Some ev \<in> set evs" and "?I s" for ev s
  proof -
    have "ev \<noteq> YAML_SCALAR_EVENT k" using that(1) k(3) by auto
    then have "current_key (handle_event ev s) \<noteq> k"
      using handle_event_key [OF k(1,2)] that(2) by blast
    moreover have "F (prof (handle_event ev s)) = F (prof s)"
      using handle_event_field [of s k F ev] that(2) F_set F_tc by blast
    ultimately show ?thesis using that(2) by simp
  qed
  have "?I st'"
    by (rule parse_events_invariant [OF run, where I = ?I]) (use st step in auto)
  then show ?thesis by simp
qed

lemma tempest_control_keeps_default:
  assumes run: "parse_events evs st = Some st'"
    and k: "Some (YAML_SCALAR_EVENT ''tempest_control'') \<notin> set evs"
    and st: "current_key st \<noteq> ''tempest_control''" "in_tempest st = 0"
  shows "tempest_control (prof st') = tempest_control (prof st)"
proof -
  let ?I = "\<lambda>s. current_key s \<noteq> ''tempest_control'' \<and> in_tempest s = 0
                \<and> tempest_control (prof s) = tempest_control (prof st)"
  have step: "?I (handle_event ev s)" if "Some ev \<in> set evs" and "?I s" for ev s
  proof -
    have ne: "ev \<noteq> YAML_SCALAR_EVENT ''tempest_control''" using that(1) k by auto
    have "current_key (handle_event ev s) \<noteq> ''tempest_control''"
      using handle_event_key [of "''tempest_control''" ev s] ne that(2) by simp
    moreover have "in_tempest (handle_event ev s) = 0"
      using that(2) by (cases ev) (auto simp: Let_def)
    moreover have "tempest_control (prof (handle_event ev s)) = tempest_control (prof s)"
      using that(2) by (cases ev) (auto simp: Let_def)
    ultimately show ?thesis using that(2) by simp
  qed
  have "?I st'"
    by (rule parse_events_invariant [OF run, where I = ?I]) (use st step in auto)
  then show ?thesis by simp
qed

lemma fps_den_set_field:
  "fps_den (set_field key v p) = (if key = ''fps'' then 1 else fps_den p)"
  by (simp add: set_field_def)

lemma fps_den_zero_or_one:
  assumes run: "parse_events evs st = Some st'"
    and st: "fps_den (prof st) = 0 \<or> fps_den (prof st) = 1"
  shows "fps_den (prof st') = 0 \<or> fps_den (prof st') = 1"
proof -
  let ?I = "\<lambda>s. fps_den (prof s) = 0 \<or> fps_den (prof s) = 1"
  have step: "?I (handle_event ev s)" if "?I s" for ev s
    using that by (cases ev) (auto simp: Let_def fps_den_set_field)
  show ?thesis
    by (rule parse_events_invariant [OF run, where I = ?I]) (use st step in auto)
qed

lemma resolution_never_set:
  assumes run: "parse_events evs st = Some st'"
  shows "width (prof st') = width (prof st) \<and> height (prof st') = height (prof st)"
proof -
  let ?I = "\<lambda>s. width (prof s) = width (prof st) \<and> height (prof s) = height (prof st)"
  have step: "?I (handle_event ev s)" if "?I s" for ev s
    using that by (cases ev) (auto simp: Let_def)
  show ?thesis
    by (rule parse_events_invariant [OF run, where I = ?I]) (use step in auto)
qed

lemma load_success:
  assumes "fopen_result env path = Inr results"
    and "dsv4l2_profile_load_from_file env (Some path) (Some old) = (0, Some (Some p))"
  shows "\<exists>st. parse_events results initial_loader_state = Some st \<and> prof st = p"
  using assms
  by (auto simp: dsv4l2_profile_load_from_file_def ENOMEM_def EINVAL_def
      split: if_splits sum.splits option.splits)

lemma loader_never_sets_resolution:
  assumes "fopen_result env path = Inr results"
    and "dsv4l2_profile_load_from_file env (Some path) (Some old) = (0, Some (Some p))"
  shows "width p = 0 \<and> height p = 0"
proof -
  obtain st where "parse_events results initial_loader_state = Some st" and "prof st = p"
    using load_success [OF assms] by blast
  then show ?thesis
    using resolution_never_set [of results initial_loader_state st]
    by (simp add: initial_loader_state_def initial_profile_def calloc_profile_def)
qed

lemma resolution_shifts_following_keys:
  "dsv4l2_profile_load_from_file (one_file resolution_fps_doc) (Some ''camera.yaml'') (Some None)
     = (0, Some (Some initial_profile))
   \<and> fps_num initial_profile = 0"
  by (simp add: dsv4l2_profile_load_from_file_def one_file_def resolution_fps_doc_def
      initial_loader_state_def set_field_def initial_profile_def calloc_profile_def)

text \<open>
  C7. The loader on the document \<^verbatim>\<open>resolution: [1280, 720]\<close>: it succeeds, and the
  profile it hands back is the initial one, with \<open>width = 0\<close> and \<open>height = 0\<close> where the
  claim has 1280 and 720. (The sequence-start handler records the context
  ``resolution'', which no scalar handler reads; 1280 is consumed as the value of the key
  \<open>resolution\<close> and 720 as the next key.)
\<close>

theorem resolution_pair_not_loaded:
  "dsv4l2_profile_load_from_file (one_file resolution_doc) (Some ''camera.yaml'') (Some None)
     = (0, Some (Some initial_profile))
   \<and> width initial_profile = 0 \<and> height initial_profile = 0
   \<and> (1280 :: 32 word) \<noteq> 0 \<and> (720 :: 32 word) \<noteq> 0"
  by (simp add: dsv4l2_profile_load_from_file_def one_file_def resolution_doc_def
      initial_loader_state_def set_field_def initial_profile_def calloc_profile_def)

text \<open>
  C8 (as the code has it). In a profile loaded with success, a field whose key is no
  scalar of the document has its initial value: \<open>buffer_count = 4\<close>, the two flags 0,
  every member of the TEMPEST mapping 0, and \<open>fps_den = 0\<close> when \<open>fps\<close> is missing;
  \<open>fps_den\<close> is never anything but 0 or 1 (it becomes 1 when an \<open>fps\<close> value is stored).
\<close>

theorem missing_fields_keep_initial_values:
  assumes "fopen_result env path = Inr results"
    and "dsv4l2_profile_load_from_file env (Some path) (Some old) = (0, Some (Some p))"
  shows "(Some (YAML_SCALAR_EVENT ''buffer_count'') \<notin> set results \<longrightarrow> buffer_count p = 4)
       \<and> (Some (YAML_SCALAR_EVENT ''constant_time_required'') \<notin> set results
            \<longrightarrow> constant_time_required p = 0)
       \<and> (Some (YAML_SCALAR_EVENT ''quantum_candidate'') \<notin> set results
            \<longrightarrow> quantum_candidate p = 0)
       \<and> (Some (YAML_SCALAR_EVENT ''tempest_control'') \<notin> set results
            \<longrightarrow> tempest_control p =
                  \<lparr>control_id = 0, disabled_value = 0, low_value = 0, high_value = 0,
                   lockdown_value = 0, auto_detect = 0\<rparr>)
       \<and> (Some (YAML_SCALAR_EVENT ''fps'') \<notin> set results \<longrightarrow> fps_den p = 0)
       \<and> (fps_den p = 0 \<or> fps_den p = 1)"
proof -
  obtain st where run: "parse_events results initial_loader_state = Some st"
    and p: "prof st = p"
    using load_success [OF assms] by blast
  have key0: "current_key initial_loader_state = []"
    by (simp add: initial_loader_state_def)
  have bc: "buffer_count p = 4"
    if "Some (YAML_SCALAR_EVENT ''buffer_count'') \<notin> set results"
    using field_keeps_default [OF run _ _ that, of buffer_count] p
    by (simp add: key0 set_field_def)
      (simp add: initial_loader_state_def initial_profile_def calloc_profile_def)
  have ct: "constant_time_required p = 0"
    if "Some (YAML_SCALAR_EVENT ''constant_time_required'') \<notin> set results"
    using field_keeps_default [OF run _ _ that, of constant_time_required] p
    by (simp add: key0 set_field_def)
      (simp add: initial_loader_state_def initial_profile_def calloc_profile_def)
  have qc: "quantum_candidate p = 0"
    if "Some (YAML_SCALAR_EVENT ''quantum_candidate'') \<notin> set results"
    using field_keeps_default [OF run _ _ that, of quantum_candidate] p
    by (simp add: key0 set_field_def)
      (simp add: initial_loader_state_def initial_profile_def calloc_profile_def)
  have tc: "tempest_control p =
              \<lparr>control_id = 0, disabled_value = 0, low_value = 0, high_value = 0,
               lockdown_value = 0, auto_detect = 0\<rparr>"
    if "Some (YAML_SCALAR_EVENT ''tempest_control'') \<notin> set results"
    using tempest_control_keeps_default [OF run that] p
    by (simp add: initial_loader_state_def initial_profile_def calloc_profile_def)
  have fd0: "fps_den p = 0"
    if "Some (YAML_SCALAR_EVENT ''fps'') \<notin> set results"
    using field_keeps_default [OF run _ _ that, of fps_den] p
    by (simp add: key0 set_field_def)
      (simp add: initial_loader_state_def initial_profile_def calloc_profile_def)
  have fd01: "fps_den p = 0 \<or> fps_den p = 1"
    using fps_den_zero_or_one [OF run] p
    by (simp add: initial_loader_state_def initial_profile_def calloc_profile_def)
  show ?thesis
    using bc ct qc tc fd0 fd01 by blast
qed

theorem missing_fields_keep_initial_values_witness:
  "dsv4l2_profile_load_from_file (one_file role_doc) (Some ''camera.yaml'') (Some None)
     = (0, Some (Some (initial_profile\<lparr>role := ''camera''\<rparr>)))
   \<and> buffer_count (initial_profile\<lparr>role := ''camera''\<rparr>) = 4
   \<and> constant_time_required (initial_profile\<lparr>role := ''camera''\<rparr>) = 0
   \<and> quantum_candidate (initial_profile\<lparr>role := ''camera''\<rparr>) = 0
   \<and> tempest_control (initial_profile\<lparr>role := ''camera''\<rparr>) =
        \<lparr>control_id = 0, disabled_value = 0, low_value = 0, high_value = 0,
         lockdown_value = 0, auto_detect = 0\<rparr>
   \<and> fps_den (initial_profile\<lparr>role := ''camera''\<rparr>) = 0"
proof -
  have opened: "fopen_result (one_file role_doc) ''camera.yaml'' = Inr role_doc"
    by (simp add: one_file_def)
  have loaded:
    "dsv4l2_profile_load_from_file (one_file role_doc) (Some ''camera.yaml'') (Some None)
       = (0, Some (Some (initial_profile\<lparr>role := ''camera''\<rparr>)))"
    by (simp add: dsv4l2_profile_load_from_file_def one_file_def role_doc_def
        initial_loader_state_def set_field_def)
  show ?thesis
    using loaded missing_fields_keep_initial_values [OF opened loaded]
    by (simp add: role_doc_def)
qed

text \<open>
  Counterexample to C8 as stated: the document \<^verbatim>\<open>role: camera\<close> has no \<open>fps\<close>, and the
  profile loaded from it has \<open>fps_den = 0\<close>, not 1.
\<close>

theorem missing_fps_den_counterexample:
  "Some (YAML_SCALAR_EVENT ''fps'') \<notin> set role_doc
   \<and> dsv4l2_profile_load_from_file (one_file role_doc) (Some ''camera.yaml'') (Some None)
       = (0, Some (Some (initial_profile\<lparr>role := ''camera''\<rparr>)))
   \<and> fps_den (initial_profile\<lparr>role := ''camera''\<rparr>) = 0
   \<and> fps_den (initial_profile\<lparr>role := ''camera''\<rparr>) \<noteq> 1"
  by (simp add: dsv4l2_profile_load_from_file_def one_file_def role_doc_def
      initial_loader_state_def set_field_def initial_profile_def calloc_profile_def)

end
